theory Spec2Isabelle
  imports Main "HOL-Library.Char_ord" "HOL-Library.List_Lexorder"
begin

section \<open>Payment ledger: \<^verbatim>\<open>tg_stars-main/services/repository.py\<close>\<close>

text \<open>
  The two tables the payment operations touch, as \<^verbatim>\<open>tg_stars-main/database.py\<close>
  declares them. A table is the list of its rows. The columns \<^verbatim>\<open>amount\<close>,
  \<^verbatim>\<open>fee_amount\<close>, \<^verbatim>\<open>total_amount\<close> and \<^verbatim>\<open>balance\<close> are SQL
  \<^verbatim>\<open>REAL\<close>; their type is the parameter \<open>'m\<close>, of which the operations use
  nothing but the addition of \<^verbatim>\<open>balance = balance + ?\<close>. Nullable text and integer
  columns are options; \<^verbatim>\<open>expires_at\<close> is \<^verbatim>\<open>NULL\<close> or the timestamp that
  \<^verbatim>\<open>create_payment\<close> stored (a point on an integer time line). The columns the
  code writes in every row it inserts (\<^verbatim>\<open>payment_method\<close>, the three amounts, the
  balance with its \<^verbatim>\<open>DEFAULT 0.0\<close>, \<^verbatim>\<open>status\<close> with its
  \<^verbatim>\<open>DEFAULT 'pending'\<close>) are not options. The constraint \<^verbatim>\<open>UNIQUE\<close> on
  \<^verbatim>\<open>invoice_id\<close> is the hypothesis \<open>distinct (map invoice_id (payments d))\<close> of the
  theorems that need it.
\<close>

record 'm payment =
  user_id :: int
  payment_method :: string
  amount :: 'm
  fee_amount :: 'm
  total_amount :: 'm
  invoice_id :: string
  payload_id :: "string option"
  crypto_asset :: "string option"
  status :: string
  message_id :: "int option"
  chat_id :: "int option"
  created_at :: int
  expires_at :: "int option"

record 'm user =
  telegram_id :: int
  username :: "string option"
  balance :: 'm
  is_blocked :: bool

text \<open>
  The repository works on one connection, \<^verbatim>\<open>self.db\<close>. Besides the two tables the
  ledger holds the connection's \<^verbatim>\<open>in_transaction\<close>: whether a transaction is open
  on it. \<^verbatim>\<open>BEGIN\<close> opens one and raises \<^verbatim>\<open>sqlite3.OperationalError\<close>
  (\<^verbatim>\<open>cannot start a transaction within a transaction\<close>) when one is open;
  \<^verbatim>\<open>self.db.commit()\<close> closes it; a \<^verbatim>\<open>SELECT\<close> leaves it as it is. Other
  failures of a database call are outside the model.
\<close>

record 'm db =
  payments :: "'m payment list"
  users :: "'m user list"
  in_transaction :: bool

datatype db_error = OperationalError

text \<open>
  \<^verbatim>\<open>SELECT * FROM payments WHERE status = 'pending' AND expires_at > CURRENT_TIMESTAMP\<close>.
  A comparison with \<^verbatim>\<open>NULL\<close> is not true, so a row without \<^verbatim>\<open>expires_at\<close> is
  not selected.
\<close>

definition get_pending_payments :: "int \<Rightarrow> 'm db \<Rightarrow> 'm payment list" where
  "get_pending_payments current_timestamp d =
     filter (\<lambda>p. status p = ''pending'' \<and>
                 (case expires_at p of None \<Rightarrow> False | Some e \<Rightarrow> current_timestamp < e))
            (payments d)"

text \<open>
  \<^verbatim>\<open>UPDATE payments SET status = ? WHERE invoice_id = ? AND status != ?\<close>, then
  \<^verbatim>\<open>self.db.commit()\<close> and \<^verbatim>\<open>return cursor.rowcount > 0\<close>.
\<close>

definition update_payment_status :: "'m db \<Rightarrow> string \<Rightarrow> string \<Rightarrow> 'm db \<times> bool" where
  "update_payment_status d iid st =
     (d\<lparr>payments :=
          map (\<lambda>p. if invoice_id p = iid \<and> status p \<noteq> st then p\<lparr>status := st\<rparr> else p)
              (payments d),
        in_transaction := False\<rparr>,
      0 < length (filter (\<lambda>p. invoice_id p = iid \<and> status p \<noteq> st) (payments d)))"

text \<open>\<^verbatim>\<open>SELECT * FROM payments WHERE invoice_id = ?\<close>, \<^verbatim>\<open>fetchone\<close>.\<close>

definition get_payment_by_invoice_id :: "'m db \<Rightarrow> string \<Rightarrow> 'm payment option" where
  "get_payment_by_invoice_id d iid = find (\<lambda>p. invoice_id p = iid) (payments d)"

text \<open>\<^verbatim>\<open>SELECT * FROM users WHERE telegram_id = ?\<close>, \<^verbatim>\<open>fetchone\<close>.\<close>

definition get_user :: "'m db \<Rightarrow> int \<Rightarrow> 'm user option" where
  "get_user d uid = find (\<lambda>u. telegram_id u = uid) (users d)"

text \<open>
  The settlement. \<^verbatim>\<open>BEGIN\<close> (which raises when a transaction is open), then the
  selection of the row of the invoice if it is pending. Without such a row the function
  returns \<^verbatim>\<open>None\<close> from inside the \<^verbatim>\<open>async with\<close> block, which closes the
  cursor only: the transaction stays open. Otherwise it sets the invoice to
  \<^verbatim>\<open>'paid'\<close>, adds the row's \<^verbatim>\<open>amount\<close> to the balance of the row's
  \<^verbatim>\<open>user_id\<close>, commits and returns the row as it was read. The result is the ledger
  after the call and \<open>Inl\<close> the exception raised or \<open>Inr\<close> the value returned.
\<close>

definition process_successful_payment ::
  "('m::plus) db \<Rightarrow> string \<Rightarrow> 'm db \<times> (db_error + 'm payment option)" where
  "process_successful_payment d iid =
     (if in_transaction d then (d, Inl OperationalError)
      else
        (case find (\<lambda>p. invoice_id p = iid \<and> status p = ''pending'') (payments d) of
           None \<Rightarrow> (d\<lparr>in_transaction := True\<rparr>, Inr None)
         | Some payment \<Rightarrow>
             (d\<lparr>payments :=
                  map (\<lambda>p. if invoice_id p = iid then p\<lparr>status := ''paid''\<rparr> else p)
                      (payments d),
                users :=
                  map (\<lambda>u. if telegram_id u = user_id payment
                            then u\<lparr>balance := balance u + amount payment\<rparr> else u)
                      (users d),
                in_transaction := False\<rparr>,
              Inr (Some payment))))"

text \<open>The balance column of a user, when the user has a row.\<close>

definition balance_of :: "'m db \<Rightarrow> int \<Rightarrow> 'm option" where
  "balance_of d uid = map_option balance (get_user d uid)"

text \<open>The ledger after a settlement call, without the returned row.\<close>

definition settle :: "string \<Rightarrow> ('m::plus) db \<Rightarrow> 'm db" where
  "settle iid d = fst (process_successful_payment d iid)"

section \<open>Gateway adapters: \<^verbatim>\<open>tg_stars-main/payments/\<close>\<close>

subsection \<open>Provider responses\<close>

text \<open>
  A decoded JSON document, as \<^verbatim>\<open>response.json()\<close> returns it: \<^verbatim>\<open>None\<close>, a
  boolean, an integer, a float (given by its \<^verbatim>\<open>repr\<close>), a string, a list or a
  dictionary (the list of its items, keys distinct).
\<close>

datatype json =
    JNull
  | JBool bool
  | JInt int
  | JFloat string
  | JStr string
  | JArr "json list"
  | JObj "(string \<times> json) list"

text \<open>
  What one HTTP exchange gives: \<open>Failed\<close> when the client raises (no connection, timeout),
  otherwise the status code and the decoded body, \<open>None\<close> when \<^verbatim>\<open>response.json()\<close>
  raises.
\<close>

datatype http_outcome =
    Failed
  | Response int "json option"

text \<open>Truth value of a Python object in a condition.\<close>

fun truthy :: "json \<Rightarrow> bool" where
  "truthy JNull = False"
| "truthy (JBool b) = b"
| "truthy (JInt i) = (i \<noteq> 0)"
| "truthy (JFloat r) = (r \<noteq> ''0.0'' \<and> r \<noteq> ''-0.0'')"
| "truthy (JStr s) = (s \<noteq> [])"
| "truthy (JArr xs) = (xs \<noteq> [])"
| "truthy (JObj kvs) = (kvs \<noteq> [])"

text \<open>
  The operations the adapters apply to a document. Each returns \<open>None\<close> where Python
  raises: \<^verbatim>\<open>x.get(key, default)\<close> (\<^verbatim>\<open>AttributeError\<close> unless \<open>x\<close> is a dictionary),
  \<^verbatim>\<open>x[key]\<close> for a string key (\<^verbatim>\<open>KeyError\<close>, \<^verbatim>\<open>TypeError\<close>),
  \<^verbatim>\<open>key in x\<close> (\<^verbatim>\<open>TypeError\<close> unless \<open>x\<close> is a dictionary, a list or a string) and
  the iteration \<^verbatim>\<open>for item in x\<close>.
\<close>

fun dict_get :: "json \<Rightarrow> string \<Rightarrow> json \<Rightarrow> json option" where
  "dict_get (JObj kvs) key dflt =
     Some (case map_of kvs key of None \<Rightarrow> dflt | Some v \<Rightarrow> v)"
| "dict_get x key dflt = None"

fun getitem :: "json \<Rightarrow> string \<Rightarrow> json option" where
  "getitem (JObj kvs) key = map_of kvs key"
| "getitem x key = None"

fun substring_of :: "string \<Rightarrow> string \<Rightarrow> bool" where
  "substring_of p [] = (p = [])"
| "substring_of p (c # cs) = (take (length p) (c # cs) = p \<or> substring_of p cs)"

fun py_in :: "string \<Rightarrow> json \<Rightarrow> bool option" where
  "py_in key (JObj kvs) = Some (key \<in> set (map fst kvs))"
| "py_in key (JArr xs) = Some (JStr key \<in> set xs)"
| "py_in key (JStr s) = Some (substring_of key s)"
| "py_in key x = None"

fun py_iter :: "json \<Rightarrow> json list option" where
  "py_iter (JArr xs) = Some xs"
| "py_iter (JObj kvs) = Some (map (\<lambda>kv. JStr (fst kv)) kvs)"
| "py_iter (JStr s) = Some (map (\<lambda>c. JStr [c]) s)"
| "py_iter x = None"

text \<open>\<^verbatim>\<open>s.isdigit()\<close> and \<^verbatim>\<open>s.startswith(p)\<close>, on ASCII strings.\<close>

definition isdigit :: "string \<Rightarrow> bool" where
  "isdigit s = (s \<noteq> [] \<and> list_all (\<lambda>c. CHR ''0'' \<le> c \<and> c \<le> CHR ''9'') s)"

definition startswith :: "string \<Rightarrow> string \<Rightarrow> bool" where
  "startswith s p = (take (length p) s = p)"

text \<open>
  \<^verbatim>\<open>str(x)\<close>: the decimal digits of an integer, the text of a string; the
  \<^verbatim>\<open>repr\<close> of a list or dictionary is the parameter \<open>repr\<close>.
\<close>

function str_nat :: "nat \<Rightarrow> string" where
  "str_nat n =
     (if n < 10 then [''0123456789'' ! n]
      else str_nat (n div 10) @ [''0123456789'' ! (n mod 10)])"
  by pat_completeness auto
termination
  by (relation "measure id") auto

definition str_int :: "int \<Rightarrow> string" where
  "str_int i = (if i < 0 then CHR ''-'' # str_nat (nat (- i)) else str_nat (nat i))"

fun py_str :: "(json \<Rightarrow> string) \<Rightarrow> json \<Rightarrow> string" where
  "py_str repr JNull = ''None''"
| "py_str repr (JBool b) = (if b then ''True'' else ''False'')"
| "py_str repr (JInt i) = str_int i"
| "py_str repr (JFloat r) = r"
| "py_str repr (JStr s) = s"
| "py_str repr x = repr x"

subsection \<open>What a status check returns\<close>

text \<open>
  The dictionary a \<^verbatim>\<open>check_payment_status\<close> returns, by the keys the loop reads:
  \<^verbatim>\<open>"success"\<close>, \<^verbatim>\<open>"status"\<close> and \<^verbatim>\<open>"error"\<close>. The error texts are a datatype:
  the unexpected response format, the invoice not found, the status check refused with an
  HTTP status, the text \<^verbatim>\<open>API error:\<close> with the value it quotes, the error name the
  provider sent, and the failed connection.
\<close>

datatype adapter_error =
    UnexpectedFormat
  | InvoiceNotFound
  | StatusCheckError int
  | ApiError json
  | ProviderError json
  | ConnectionError

record status_result =
  success :: bool
  result_status :: "string option"
  error :: "adapter_error option"

definition failure :: "adapter_error \<Rightarrow> status_result" where
  "failure e = \<lparr>success = False, result_status = None, error = Some e\<rparr>"

text \<open>
  \<^verbatim>\<open>{"success": True, "status": "paid" if status == paid_word else "pending"}\<close>
\<close>

definition decoded :: "string \<Rightarrow> json \<Rightarrow> status_result" where
  "decoded paid_word st =
     \<lparr>success = True,
      result_status = Some (if st = JStr paid_word then ''paid'' else ''pending''),
      error = None\<rparr>"

subsection \<open>\<^verbatim>\<open>LolzPayment.check_payment_status\<close>\<close>

definition lolz_check_payment_status :: "http_outcome \<Rightarrow> status_result" where
  "lolz_check_payment_status response =
     (case response of
        Failed \<Rightarrow> failure ConnectionError
      | Response code body \<Rightarrow>
          if code = 200 then
            (case body of
               None \<Rightarrow> failure ConnectionError
             | Some result \<Rightarrow>
                 (case py_in ''invoice'' result of
                    None \<Rightarrow> failure ConnectionError
                  | Some False \<Rightarrow> failure UnexpectedFormat
                  | Some True \<Rightarrow>
                      (case getitem result ''invoice'' of
                         None \<Rightarrow> failure ConnectionError
                       | Some invoice_data \<Rightarrow>
                           (case dict_get invoice_data ''status'' JNull of
                              None \<Rightarrow> failure ConnectionError
                            | Some st \<Rightarrow> decoded ''paid'' st))))
          else if code = 404 then failure InvoiceNotFound
          else failure (StatusCheckError code))"

subsection \<open>\<^verbatim>\<open>XRocetPayment.check_payment\<close>\<close>

definition xrocet_check_payment :: "http_outcome \<Rightarrow> string option" where
  "xrocet_check_payment response =
     (case response of
        Failed \<Rightarrow> Some ''pending''
      | Response code body \<Rightarrow>
          if code = 200 then
            (case body of
               None \<Rightarrow> Some ''pending''
             | Some result \<Rightarrow>
                 (case dict_get result ''success'' JNull of
                    None \<Rightarrow> Some ''pending''
                  | Some ok \<Rightarrow>
                      if truthy ok then
                        (case getitem result ''data'' of
                           None \<Rightarrow> Some ''pending''
                         | Some invoice_data \<Rightarrow>
                             (case dict_get invoice_data ''status'' (JStr ''active'') of
                                None \<Rightarrow> Some ''pending''
                              | Some st \<Rightarrow>
                                  (case dict_get invoice_data ''payments'' (JArr []) of
                                     None \<Rightarrow> Some ''pending''
                                   | Some pays \<Rightarrow>
                                       if truthy pays then Some ''paid''
                                       else if st = JStr ''active'' then Some ''pending''
                                       else Some ''expired'')))
                      else Some ''pending''))
          else Some ''pending'')"

subsection \<open>\<^verbatim>\<open>CrystalPayPayment.check_payment_status\<close>\<close>

definition crystalpay_check_payment_status :: "http_outcome \<Rightarrow> status_result" where
  "crystalpay_check_payment_status response =
     (case response of
        Failed \<Rightarrow> failure ConnectionError
      | Response code body \<Rightarrow>
          if code = 200 then
            (case body of
               None \<Rightarrow> failure ConnectionError
             | Some result \<Rightarrow>
                 (case dict_get result ''error'' JNull of
                    None \<Rightarrow> failure ConnectionError
                  | Some err \<Rightarrow>
                      if \<not> truthy err then
                        (case dict_get result ''state'' (JStr ''notpayed'') of
                           None \<Rightarrow> failure ConnectionError
                         | Some st \<Rightarrow> decoded ''payed'' st)
                      else
                        (case dict_get result ''errors'' (JStr ''Unknown error'') of
                           None \<Rightarrow> failure ConnectionError
                         | Some errs \<Rightarrow> failure (ApiError errs))))
          else failure (ApiError (JInt code)))"

subsection \<open>\<^verbatim>\<open>CryptoBotPayment.check_payment_status\<close>\<close>

text \<open>
  The first request, \<^verbatim>\<open>getInvoice\<close>, made when the key is all digits: \<open>None\<close> when
  it raises, \<open>Some None\<close> when the code goes on to the second request, \<open>Some (Some r)\<close>
  when it returns \<open>r\<close>.
\<close>

definition cryptobot_get_invoice :: "http_outcome \<Rightarrow> status_result option option" where
  "cryptobot_get_invoice response =
     (case response of
        Failed \<Rightarrow> None
      | Response code body \<Rightarrow>
          if code = 200 then
            (case body of
               None \<Rightarrow> None
             | Some result \<Rightarrow>
                 (case dict_get result ''ok'' JNull of
                    None \<Rightarrow> None
                  | Some ok \<Rightarrow>
                      if truthy ok then
                        (case dict_get result ''result'' (JObj []) of
                           None \<Rightarrow> None
                         | Some invoice \<Rightarrow>
                             (case dict_get invoice ''status'' (JStr ''active'') of
                                None \<Rightarrow> None
                              | Some st \<Rightarrow> Some (Some (decoded ''paid'' st))))
                      else Some None))
          else Some None)"

text \<open>
  The test of the loop over the listed invoices,
  \<^verbatim>\<open>str(invoice.get("invoice_id")) == invoice_id or
  (invoice.get("payload", "").startswith("cryptobot_") and invoice.get("payload") == invoice_id)\<close>;
  \<open>None\<close> when it raises.
\<close>

definition cryptobot_matches :: "(json \<Rightarrow> string) \<Rightarrow> string \<Rightarrow> json \<Rightarrow> bool option" where
  "cryptobot_matches repr iid invoice =
     (case dict_get invoice ''invoice_id'' JNull of
        None \<Rightarrow> None
      | Some i \<Rightarrow>
          if py_str repr i = iid then Some True
          else
            (case dict_get invoice ''payload'' (JStr []) of
               Some (JStr pl) \<Rightarrow> Some (startswith pl ''cryptobot_'' \<and> pl = iid)
             | _ \<Rightarrow> None))"

fun cryptobot_scan :: "(json \<Rightarrow> string) \<Rightarrow> string \<Rightarrow> json list \<Rightarrow> status_result" where
  "cryptobot_scan repr iid [] =
     \<lparr>success = True, result_status = Some ''pending'', error = None\<rparr>"
| "cryptobot_scan repr iid (invoice # rest) =
     (case cryptobot_matches repr iid invoice of
        None \<Rightarrow> failure ConnectionError
      | Some True \<Rightarrow>
          (case dict_get invoice ''status'' (JStr ''active'') of
             None \<Rightarrow> failure ConnectionError
           | Some st \<Rightarrow> decoded ''paid'' st)
      | Some False \<Rightarrow> cryptobot_scan repr iid rest)"

text \<open>The second request, \<^verbatim>\<open>getInvoices\<close>.\<close>

definition cryptobot_get_invoices ::
  "(json \<Rightarrow> string) \<Rightarrow> string \<Rightarrow> http_outcome \<Rightarrow> status_result" where
  "cryptobot_get_invoices repr iid response =
     (case response of
        Failed \<Rightarrow> failure ConnectionError
      | Response code body \<Rightarrow>
          if code = 200 then
            (case body of
               None \<Rightarrow> failure ConnectionError
             | Some result \<Rightarrow>
                 (case dict_get result ''ok'' JNull of
                    None \<Rightarrow> failure ConnectionError
                  | Some ok \<Rightarrow>
                      if truthy ok then
                        (case dict_get result ''result'' (JObj []) of
                           None \<Rightarrow> failure ConnectionError
                         | Some res \<Rightarrow>
                             (case dict_get res ''items'' (JArr []) of
                                None \<Rightarrow> failure ConnectionError
                              | Some invoices \<Rightarrow>
                                  (case py_iter invoices of
                                     None \<Rightarrow> failure ConnectionError
                                   | Some items \<Rightarrow> cryptobot_scan repr iid items)))
                      else
                        (case dict_get result ''error'' (JObj []) of
                           None \<Rightarrow> failure ConnectionError
                         | Some err \<Rightarrow>
                             (case dict_get err ''name'' (JStr ''Unknown error'') of
                                None \<Rightarrow> failure ConnectionError
                              | Some name \<Rightarrow> failure (ProviderError name)))))
          else failure (StatusCheckError code))"

text \<open>
  The whole check: \<open>first\<close> and \<open>second\<close> are the outcomes of the two requests (the
  first is made only for a key of digits).
\<close>

definition cryptobot_check_payment_status ::
  "(json \<Rightarrow> string) \<Rightarrow> http_outcome \<Rightarrow> http_outcome \<Rightarrow> string \<Rightarrow> status_result" where
  "cryptobot_check_payment_status repr first second iid =
     (case (if isdigit iid then cryptobot_get_invoice first else Some None) of
        None \<Rightarrow> failure ConnectionError
      | Some (Some r) \<Rightarrow> r
      | Some None \<Rightarrow> cryptobot_get_invoices repr iid second)"

section \<open>Reconciliation loop: \<^verbatim>\<open>tg_stars-main/utils/payment_checker.py\<close>\<close>

text \<open>
  \<^verbatim>\<open>self.payment_handlers\<close>: the four adapter objects, each as the function from the
  correlation key to what its status check returns (the network decides that).
  \<^verbatim>\<open>XRocetPayment.check_payment\<close> returns an \<^verbatim>\<open>Optional[str]\<close>, the other three
  \<^verbatim>\<open>check_payment_status\<close> a dictionary.
\<close>

record payment_handlers =
  lolz :: "string \<Rightarrow> status_result"
  cryptobot :: "string \<Rightarrow> status_result"
  xrocet :: "string \<Rightarrow> string option"
  crystalpay :: "string \<Rightarrow> status_result"

text \<open>
  The adapters over a network: what each provider answers to each request.
\<close>

record network =
  lolz_invoice :: "string \<Rightarrow> http_outcome"
  cryptobot_getInvoice :: "string \<Rightarrow> http_outcome"
  cryptobot_getInvoices :: http_outcome
  xrocet_invoice :: "string \<Rightarrow> http_outcome"
  crystalpay_info :: "string \<Rightarrow> http_outcome"

definition handlers_on :: "(json \<Rightarrow> string) \<Rightarrow> network \<Rightarrow> payment_handlers" where
  "handlers_on repr net =
     \<lparr>lolz = (\<lambda>cid. lolz_check_payment_status (lolz_invoice net cid)),
      cryptobot = (\<lambda>cid. cryptobot_check_payment_status repr (cryptobot_getInvoice net cid)
                           (cryptobot_getInvoices net) cid),
      xrocet = (\<lambda>cid. xrocet_check_payment (xrocet_invoice net cid)),
      crystalpay = (\<lambda>cid. crystalpay_check_payment_status (crystalpay_info net cid))\<rparr>"

text \<open>
  What a step of the loop does to the outside, in the order it does it: the status check
  of a gateway (payment method and correlation key), the notifications of the user and of
  the operator, the error log (with the invoice id).
\<close>

datatype 'm event =
    CheckStatus string string
  | NotifyExpired int string
  | NotifySuccess int 'm string
  | NotifyAdmin "'m payment"
  | LogError string

text \<open>
  \<^verbatim>\<open>check_id = payload_id if payment_method == "cryptobot" and payload_id else invoice_id\<close>
\<close>

definition check_id :: "'m payment \<Rightarrow> string" where
  "check_id payment =
     (case payload_id payment of
        None \<Rightarrow> invoice_id payment
      | Some pl \<Rightarrow>
          if payment_method payment = ''cryptobot'' \<and> pl \<noteq> [] then pl else invoice_id payment)"

text \<open>
  \<^verbatim>\<open>self.payment_handlers.get(payment_method)\<close>, then the call of the handler:
  \<^verbatim>\<open>check_payment\<close> wrapped as \<^verbatim>\<open>{"success": True, "status": status}\<close> for
  \<^verbatim>\<open>"xrocet"\<close>, \<^verbatim>\<open>check_payment_status\<close> otherwise. \<^verbatim>\<open>None\<close> when the method
  has no handler.
\<close>

definition call_handler :: "payment_handlers \<Rightarrow> string \<Rightarrow> string \<Rightarrow> status_result option" where
  "call_handler h m cid =
     (if m = ''lolz'' then Some (lolz h cid)
      else if m = ''cryptobot'' then Some (cryptobot h cid)
      else if m = ''xrocet'' then
        Some \<lparr>success = True, result_status = xrocet h cid, error = None\<rparr>
      else if m = ''crystalpay'' then Some (crystalpay h cid)
      else None)"

text \<open>
  \<^verbatim>\<open>PaymentChecker.process_single_payment\<close>. The argument \<open>now\<close> is
  \<^verbatim>\<open>datetime.now()\<close>; \<open>payment\<close> is the row as \<^verbatim>\<open>get_pending_payments\<close> read
  it, \<open>d\<close> the ledger at the time of the step. \<^verbatim>\<open>datetime.fromisoformat\<close> raises on
  a \<^verbatim>\<open>NULL\<close> \<^verbatim>\<open>expires_at\<close>, and the settlement raises when a transaction is
  open; the \<^verbatim>\<open>except\<close> clause logs and the step ends.
  The result is the ledger after the step and the events of the step: the status query
  sent to an adapter, the notifications (which catch their own exceptions) and the error
  log.
\<close>

definition process_single_payment ::
  "payment_handlers \<Rightarrow> int \<Rightarrow> ('m::plus) db \<Rightarrow> 'm payment \<Rightarrow> 'm db \<times> 'm event list" where
  "process_single_payment h now d payment =
     (case expires_at payment of
        None \<Rightarrow> (d, [LogError (invoice_id payment)])
      | Some e \<Rightarrow>
          if e < now then
            (case update_payment_status d (invoice_id payment) ''expired'' of
               (d', changed) \<Rightarrow>
                 (d', if changed then [NotifyExpired (user_id payment) (invoice_id payment)]
                      else []))
          else
            (case call_handler h (payment_method payment) (check_id payment) of
               None \<Rightarrow> (d, [])
             | Some status_result \<Rightarrow>
                 if \<not> success status_result then
                   (d, [CheckStatus (payment_method payment) (check_id payment),
                        LogError (invoice_id payment)])
                 else if result_status status_result = Some ''paid'' then
                   (case process_successful_payment d (invoice_id payment) of
                      (d', Inl err) \<Rightarrow>
                        (d', [CheckStatus (payment_method payment) (check_id payment),
                              LogError (invoice_id payment)])
                    | (d', Inr None) \<Rightarrow>
                        (d', [CheckStatus (payment_method payment) (check_id payment)])
                    | (d', Inr (Some processed_payment)) \<Rightarrow>
                        (d', [CheckStatus (payment_method payment) (check_id payment),
                              NotifySuccess (user_id processed_payment)
                                (amount processed_payment) (invoice_id payment),
                              NotifyAdmin processed_payment]))
                 else (d, [CheckStatus (payment_method payment) (check_id payment)])))"

text \<open>
  \<^verbatim>\<open>PaymentChecker.check_pending_payments\<close>: one cycle. \<open>enabled_systems\<close> is the
  dictionary of the enabled gateways, \<open>current_timestamp\<close> the clock of the query,
  \<open>clock payment\<close> the value of \<^verbatim>\<open>datetime.now()\<close> when the loop reaches that row.
\<close>

fun check_each ::
  "payment_handlers \<Rightarrow> (string \<rightharpoonup> bool) \<Rightarrow> ('m payment \<Rightarrow> int) \<Rightarrow> ('m::plus) db \<Rightarrow>
   'm payment list \<Rightarrow> 'm db \<times> 'm event list" where
  "check_each h enabled_systems clock d [] = (d, [])"
| "check_each h enabled_systems clock d (payment # rest) =
     (if enabled_systems (payment_method payment) = Some True then
        (case process_single_payment h (clock payment) d payment of
           (d', evs) \<Rightarrow>
             (case check_each h enabled_systems clock d' rest of
                (d'', evs') \<Rightarrow> (d'', evs @ evs')))
      else check_each h enabled_systems clock d rest)"

definition check_pending_payments ::
  "payment_handlers \<Rightarrow> (string \<rightharpoonup> bool) \<Rightarrow> int \<Rightarrow> ('m payment \<Rightarrow> int) \<Rightarrow> ('m::plus) db \<Rightarrow>
   'm db \<times> 'm event list" where
  "check_pending_payments h enabled_systems current_timestamp clock d =
     check_each h enabled_systems clock d (get_pending_payments current_timestamp d)"

section \<open>Signature validator: \<^verbatim>\<open>payments/robokassa.py\<close>\<close>

text \<open>
  The library functions the validator calls are parameters: \<open>md5_hexdigest s\<close> is
  \<^verbatim>\<open>hashlib.md5(s.encode()).hexdigest()\<close>, \<open>str_float\<close> is \<^verbatim>\<open>str\<close> on the
  amount, whose type is the parameter \<open>'a\<close>, and \<open>str_value\<close> is \<^verbatim>\<open>str\<close> on the
  values of \<^verbatim>\<open>extra_params\<close>, whose type is the parameter \<open>'v\<close>. The invoice id
  is a string, on which \<^verbatim>\<open>str\<close> is the identity.
\<close>

record ('a, 'v) pylib =
  md5_hexdigest :: "string \<Rightarrow> string"
  str_float :: "'a \<Rightarrow> string"
  str_value :: "'v \<Rightarrow> string"

text \<open>
  A dictionary is the list of its items in iteration order, with distinct keys;
  \<^verbatim>\<open>extra_params\<close> is such a dictionary or \<^verbatim>\<open>None\<close>.
\<close>

type_synonym 'v extra_params = "(string \<times> 'v) list option"

text \<open>\<^verbatim>\<open>sep.join(parts)\<close>\<close>

fun join :: "string \<Rightarrow> string list \<Rightarrow> string" where
  "join sep [] = []"
| "join sep [x] = x"
| "join sep (x # y # ys) = x @ sep @ join sep (y # ys)"

text \<open>
  \<^verbatim>\<open>s.lower()\<close>, on the ASCII letters: an upper-case letter gets the bit of value 32
  set, every other character stays.
\<close>

definition lower_char :: "char \<Rightarrow> char" where
  "lower_char c =
     (if CHR ''A'' \<le> c \<and> c \<le> CHR ''Z''
      then (case c of Char b0 b1 b2 b3 b4 b5 b6 b7 \<Rightarrow> Char b0 b1 b2 b3 b4 True b6 b7)
      else c)"

definition lower :: "string \<Rightarrow> string" where
  "lower s = map lower_char s"

text \<open>
  The list \<^verbatim>\<open>signature_parts\<close> of \<^verbatim>\<open>calculate_signature\<close>: the four fixed parts,
  then \<^verbatim>\<open>str(extra_params[key])\<close> for \<^verbatim>\<open>key in sorted(extra_params.keys())\<close> when
  \<^verbatim>\<open>extra_params\<close> is neither \<^verbatim>\<open>None\<close> nor empty.
\<close>

definition signature_parts ::
  "('a, 'v) pylib \<Rightarrow> string \<Rightarrow> 'a \<Rightarrow> string \<Rightarrow> string \<Rightarrow> 'v extra_params \<Rightarrow> string list" where
  "signature_parts L m amt iid pw ex =
     [m, str_float L amt, iid, pw] @
     (case ex of
        None \<Rightarrow> []
      | Some e \<Rightarrow>
          if e = [] then []
          else map (\<lambda>key. str_value L (the (map_of e key))) (sort (map fst e)))"

definition signature_string ::
  "('a, 'v) pylib \<Rightarrow> string \<Rightarrow> 'a \<Rightarrow> string \<Rightarrow> string \<Rightarrow> 'v extra_params \<Rightarrow> string" where
  "signature_string L m amt iid pw ex =
     join '':'' (signature_parts L m amt iid pw ex)"

definition calculate_signature ::
  "('a, 'v) pylib \<Rightarrow> string \<Rightarrow> 'a \<Rightarrow> string \<Rightarrow> string \<Rightarrow> 'v extra_params \<Rightarrow> string" where
  "calculate_signature L m amt iid pw ex =
     md5_hexdigest L
       (signature_string L m amt iid pw ex)"

definition verify_callback_signature ::
  "('a, 'v) pylib \<Rightarrow> string \<Rightarrow> 'a \<Rightarrow> string \<Rightarrow> string \<Rightarrow> string \<Rightarrow> 'v extra_params \<Rightarrow> bool" where
  "verify_callback_signature L m amt iid signature pw ex =
     (lower (calculate_signature L m amt iid pw ex) =
      lower signature)"

record robokassa_config =
  merchant_login :: string
  password1 :: string
  password2 :: string
  test_password1 :: "string option"
  test_password2 :: "string option"
  use_sandbox :: bool
  timeout :: int

text \<open>
  \<^verbatim>\<open>if self.use_sandbox and self.test_password1: return self.test_password1\<close>; an
  empty string is false.
\<close>

definition get_password1 :: "robokassa_config \<Rightarrow> string" where
  "get_password1 c =
     (case test_password1 c of
        None \<Rightarrow> password1 c
      | Some t \<Rightarrow> if use_sandbox c \<and> t \<noteq> [] then t else password1 c)"

definition get_password2 :: "robokassa_config \<Rightarrow> string" where
  "get_password2 c =
     (case test_password2 c of
        None \<Rightarrow> password2 c
      | Some t \<Rightarrow> if use_sandbox c \<and> t \<noteq> [] then t else password2 c)"

definition verify_payment ::
  "('a, 'v) pylib \<Rightarrow> robokassa_config \<Rightarrow> string \<Rightarrow> 'a \<Rightarrow> string \<Rightarrow> string \<Rightarrow> 'v extra_params \<Rightarrow> bool" where
  "verify_payment L c m amt iid signature ex =
     verify_callback_signature L m amt iid signature (get_password1 c) ex"

definition verify_payment_secondary ::
  "('a, 'v) pylib \<Rightarrow> robokassa_config \<Rightarrow> string \<Rightarrow> 'a \<Rightarrow> string \<Rightarrow> string \<Rightarrow> 'v extra_params \<Rightarrow> bool" where
  "verify_payment_secondary L c m amt iid signature ex =
     verify_callback_signature L m amt iid signature (get_password2 c) ex"

definition process_success_callback ::
  "('a, 'v) pylib \<Rightarrow> robokassa_config \<Rightarrow> string \<Rightarrow> 'a \<Rightarrow> string \<Rightarrow> string \<Rightarrow> 'v extra_params \<Rightarrow>
   bool \<times> string" where
  "process_success_callback L c m amt iid signature ex =
     (if \<not> verify_payment L c m amt iid signature ex
      then (False, ''Invalid signature'')
      else (True, ''OK'' @ iid))"

definition process_fail_callback ::
  "('a, 'v) pylib \<Rightarrow> robokassa_config \<Rightarrow> string \<Rightarrow> 'a \<Rightarrow> string \<Rightarrow> string \<Rightarrow> 'v extra_params \<Rightarrow>
   bool \<times> string" where
  "process_fail_callback L c m amt iid signature ex =
     (if \<not> verify_payment_secondary L c m amt iid signature ex
      then (False, ''Invalid signature'')
      else (True, ''FAIL''))"

definition process_status_callback ::
  "('a, 'v) pylib \<Rightarrow> robokassa_config \<Rightarrow> string \<Rightarrow> 'a \<Rightarrow> string \<Rightarrow> string \<Rightarrow> 'v extra_params \<Rightarrow>
   bool \<times> string" where
  "process_status_callback L c m amt iid signature ex =
     (if \<not> verify_payment_secondary L c m amt iid signature ex
      then (False, ''Invalid signature'')
      else (True, ''OK'' @ iid))"

subsection \<open>Changing one entry; digests that do not collide\<close>


text \<open>
  The digest does not collide on two signed strings: if the strings differ, so do their
  digests, compared without case as the validator compares them.
\<close>

definition collision_free_on :: "('a, 'v) pylib \<Rightarrow> string \<Rightarrow> string \<Rightarrow> bool" where
  "collision_free_on L s s' =
     (s \<noteq> s' \<longrightarrow> lower (md5_hexdigest L s) \<noteq> lower (md5_hexdigest L s'))"

section \<open>Example data\<close>

text \<open>
  An invoice of 100 with a fee of 5, so a total of 105, pending for user 7, whose
  balance is 50; no transaction is open.
\<close>

definition example_payment :: "int payment" where
  "example_payment =
     \<lparr>user_id = 7, payment_method = ''lolz'', amount = 100, fee_amount = 5, total_amount = 105,
      invoice_id = ''inv-1'', payload_id = None, crypto_asset = None, status = ''pending'',
      message_id = None, chat_id = None, created_at = 0, expires_at = Some 900\<rparr>"

definition example_db :: "int db" where
  "example_db =
     \<lparr>payments = [example_payment],
      users = [\<lparr>telegram_id = 7, username = None, balance = 50, is_blocked = False\<rparr>],
      in_transaction = False\<rparr>"

text \<open>The same ledger with the invoice already paid.\<close>

definition example_paid_db :: "int db" where
  "example_paid_db = example_db\<lparr>payments := [example_payment\<lparr>status := ''paid''\<rparr>]\<rparr>"

text \<open>
  A ledger with two invoices of user 7: the pending one and an invoice of 30 that was paid
  earlier.
\<close>

definition example_settled_payment :: "int payment" where
  "example_settled_payment =
     \<lparr>user_id = 7, payment_method = ''lolz'', amount = 30, fee_amount = 0, total_amount = 30,
      invoice_id = ''inv-2'', payload_id = None, crypto_asset = None, status = ''paid'',
      message_id = None, chat_id = None, created_at = 0, expires_at = Some 800\<rparr>"

definition example_mixed_db :: "int db" where
  "example_mixed_db = example_db\<lparr>payments := [example_payment, example_settled_payment]\<rparr>"

text \<open>
  For the examples, amounts and values are given by their rendering and the identity stands
  in for the digest.
\<close>

definition example_lib :: "(string, string) pylib" where
  "example_lib =
     \<lparr>md5_hexdigest = (\<lambda>s. s), str_float = (\<lambda>s. s), str_value = (\<lambda>s. s)\<rparr>"

text \<open>
  The same with \<^verbatim>\<open>extra_params\<close> holding decoded JSON values, rendered as
  \<^verbatim>\<open>str\<close> renders them; \<open>example_repr\<close> stands in for the \<^verbatim>\<open>repr\<close> of
  lists and dictionaries.
\<close>

definition example_repr :: "json \<Rightarrow> string" where
  "example_repr x = ''[...]''"


definition example_config :: robokassa_config where
  "example_config =
     \<lparr>merchant_login = ''shop'', password1 = ''first'', password2 = ''second'',
      test_password1 = None, test_password2 = None, use_sandbox = False, timeout = 30\<rparr>"

text \<open>
  The same merchant in sandbox mode, with test secrets that are the two secrets crossed.
\<close>

definition sandbox_config :: robokassa_config where
  "sandbox_config =
     \<lparr>merchant_login = ''shop'', password1 = ''first'', password2 = ''second'',
      test_password1 = Some ''second'', test_password2 = Some ''first'', use_sandbox = True,
      timeout = 30\<rparr>"


definition lolz_paid_response :: http_outcome where
  "lolz_paid_response =
     Response 200
       (Some (JObj [(''invoice'', JObj [(''invoice_id'', JInt 42), (''status'', JStr ''paid'')])]))"

definition crystalpay_payed_response :: http_outcome where
  "crystalpay_payed_response =
     Response 200 (Some (JObj [(''error'', JBool False), (''state'', JStr ''payed'')]))"

definition cryptobot_paid_response :: http_outcome where
  "cryptobot_paid_response =
     Response 200
       (Some (JObj [(''ok'', JBool True),
                    (''result'', JObj [(''invoice_id'', JInt 123), (''status'', JStr ''paid'')])]))"




text \<open>
  A network on which every request fails, and one on which Lolz, CryptoBot and CrystalPay
  report every invoice paid. The gateways enabled in the examples.
\<close>

definition failing_network :: network where
  "failing_network =
     \<lparr>lolz_invoice = (\<lambda>cid. Failed), cryptobot_getInvoice = (\<lambda>cid. Failed),
      cryptobot_getInvoices = Failed, xrocet_invoice = (\<lambda>cid. Failed),
      crystalpay_info = (\<lambda>cid. Failed)\<rparr>"

definition paid_network :: network where
  "paid_network =
     \<lparr>lolz_invoice = (\<lambda>cid. lolz_paid_response),
      cryptobot_getInvoice = (\<lambda>cid. cryptobot_paid_response),
      cryptobot_getInvoices = Failed,
      xrocet_invoice = (\<lambda>cid. Failed),
      crystalpay_info = (\<lambda>cid. crystalpay_payed_response)\<rparr>"

definition example_enabled :: "string \<rightharpoonup> bool" where
  "example_enabled = [''lolz'' \<mapsto> True, ''cryptobot'' \<mapsto> True]"

section \<open>Settlement\<close>

lemma find_map_status_paid:
  "find (\<lambda>p. invoice_id p = iid \<and> status p = ''pending'')
        (map (\<lambda>p. if invoice_id p = iid then p\<lparr>status := ''paid''\<rparr> else p) ps) = None"
  by (induction ps) auto

lemma find_map_credit:
  "map_option balance
     (find (\<lambda>u. telegram_id u = uid)
        (map (\<lambda>u. if telegram_id u = owner then u\<lparr>balance := balance u + a\<rparr> else u) us)) =
   map_option (\<lambda>b. if uid = owner then b + a else b)
     (map_option balance (find (\<lambda>u. telegram_id u = uid) us))"
  by (induction us) auto

lemma find_pending_unique:
  "distinct (map invoice_id ps) \<Longrightarrow> p \<in> set ps \<Longrightarrow> status p = ''pending'' \<Longrightarrow>
   find (\<lambda>q. invoice_id q = invoice_id p \<and> status q = ''pending'') ps = Some p"
  by (induction ps) (auto simp: image_iff)

lemma map_by_invoice_unique:
  "distinct (map invoice_id ps) \<Longrightarrow> p \<in> set ps \<Longrightarrow>
   map (\<lambda>q. if invoice_id q = invoice_id p then f q else q) ps =
   map (\<lambda>q. if q = p then f p else q) ps"
  by (rule map_cong) (auto simp: distinct_map dest: inj_onD)

lemma settle_found:
  assumes "\<not> in_transaction d"
    and "find (\<lambda>q. invoice_id q = iid \<and> status q = ''pending'') (payments d) = Some p"
  shows "process_successful_payment d iid =
     (d\<lparr>payments := map (\<lambda>q. if invoice_id q = iid then q\<lparr>status := ''paid''\<rparr> else q) (payments d),
        users := map (\<lambda>u. if telegram_id u = user_id p
                           then u\<lparr>balance := balance u + amount p\<rparr> else u) (users d),
        in_transaction := False\<rparr>,
      Inr (Some p))"
  using assms by (simp add: process_successful_payment_def)

lemma settle_not_found:
  assumes "\<not> in_transaction d"
    and "find (\<lambda>q. invoice_id q = iid \<and> status q = ''pending'') (payments d) = None"
  shows "process_successful_payment d iid = (d\<lparr>in_transaction := True\<rparr>, Inr None)"
  using assms by (simp add: process_successful_payment_def)

lemma settle_in_transaction:
  "in_transaction d \<Longrightarrow> process_successful_payment d iid = (d, Inl OperationalError)"
  by (simp add: process_successful_payment_def)

lemma settle_returns_row:
  assumes "process_successful_payment d iid = (d', Inr (Some p))"
  shows "\<not> in_transaction d
       \<and> find (\<lambda>q. invoice_id q = iid \<and> status q = ''pending'') (payments d) = Some p"
  using assms by (auto simp: process_successful_payment_def split: if_splits option.splits)

lemma balance_after_settle:
  assumes "process_successful_payment d iid = (d', Inr (Some p))"
  shows "balance_of d' uid =
           map_option (\<lambda>b. if uid = user_id p then b + amount p else b) (balance_of d uid)"
proof -
  note r = settle_returns_row [OF assms]
  from assms settle_found [OF r [THEN conjunct1] r [THEN conjunct2]] have "users d' =
      map (\<lambda>u. if telegram_id u = user_id p then u\<lparr>balance := balance u + amount p\<rparr> else u) (users d)"
    by auto
  then show ?thesis
    by (simp add: balance_of_def get_user_def find_map_credit)
qed

text \<open>
  Claim C1. For an invoice \<open>p\<close> that is pending (the column \<^verbatim>\<open>invoice_id\<close> being
  unique and no transaction open on the connection), the first call of
  \<^verbatim>\<open>process_successful_payment\<close> returns the row, sets that invoice and no other to
  \<^verbatim>\<open>'paid'\<close>, adds \<open>amount p\<close> to the balance of \<open>user_id p\<close> and to no other
  balance, and commits. The second call returns \<^verbatim>\<open>None\<close> and changes no row and no
  balance, but it returns after \<^verbatim>\<open>BEGIN\<close> without \<^verbatim>\<open>COMMIT\<close> or
  \<^verbatim>\<open>ROLLBACK\<close>: the transaction stays open. The third call, for this or for any other
  invoice \<open>iid\<close>, does not return \<^verbatim>\<open>None\<close>: it raises
  \<^verbatim>\<open>OperationalError\<close>, and changes nothing. So the balance is credited once, and
  it is not every subsequent call that returns \<^verbatim>\<open>None\<close>.
\<close>

theorem settlement_third_call_raises:
  fixes d :: "('m::plus) db"
  assumes "distinct (map invoice_id (payments d))"
    and "p \<in> set (payments d)"
    and "status p = ''pending''"
    and "\<not> in_transaction d"
  shows "process_successful_payment d (invoice_id p) = (settle (invoice_id p) d, Inr (Some p))
       \<and> payments (settle (invoice_id p) d) =
           map (\<lambda>q. if q = p then p\<lparr>status := ''paid''\<rparr> else q) (payments d)
       \<and> balance_of (settle (invoice_id p) d) uid =
           map_option (\<lambda>b. if uid = user_id p then b + amount p else b) (balance_of d uid)
       \<and> \<not> in_transaction (settle (invoice_id p) d)
       \<and> process_successful_payment (settle (invoice_id p) d) (invoice_id p) =
           ((settle (invoice_id p) d)\<lparr>in_transaction := True\<rparr>, Inr None)
       \<and> process_successful_payment ((settle (invoice_id p) d)\<lparr>in_transaction := True\<rparr>) iid =
           ((settle (invoice_id p) d)\<lparr>in_transaction := True\<rparr>, Inl OperationalError)"
proof -
  let ?i = "invoice_id p"
  let ?paid = "map (\<lambda>q. if invoice_id q = ?i then q\<lparr>status := ''paid''\<rparr> else q) (payments d)"
  have f: "find (\<lambda>q. invoice_id q = ?i \<and> status q = ''pending'') (payments d) = Some p"
    using assms(1-3) by (rule find_pending_unique)
  note first = settle_found [OF assms(4) f]
  have r: "process_successful_payment d ?i = (settle ?i d, Inr (Some p))"
    by (simp add: settle_def first)
  have "payments (settle ?i d) = ?paid"
    by (simp add: settle_def first)
  then have ps: "payments (settle ?i d) =
          map (\<lambda>q. if q = p then p\<lparr>status := ''paid''\<rparr> else q) (payments d)"
    using map_by_invoice_unique [OF assms(1,2), of "\<lambda>q. q\<lparr>status := ''paid''\<rparr>"] by simp
  have b: "balance_of (settle ?i d) uid =
           map_option (\<lambda>b. if uid = user_id p then b + amount p else b) (balance_of d uid)"
    using r by (rule balance_after_settle)
  have nt: "\<not> in_transaction (settle ?i d)"
    by (simp add: settle_def first)
  have "find (\<lambda>q. invoice_id q = ?i \<and> status q = ''pending'') (payments (settle ?i d)) = None"
    by (simp add: settle_def first find_map_status_paid)
  with nt have second: "process_successful_payment (settle ?i d) ?i =
           ((settle ?i d)\<lparr>in_transaction := True\<rparr>, Inr None)"
    by (rule settle_not_found)
  have third: "process_successful_payment ((settle ?i d)\<lparr>in_transaction := True\<rparr>) iid =
           ((settle ?i d)\<lparr>in_transaction := True\<rparr>, Inl OperationalError)"
    by (rule settle_in_transaction) simp
  show ?thesis by (intro conjI r ps b nt second third)
qed

theorem settlement_third_call_raises_witness:
  "distinct (map invoice_id (payments example_db))
   \<and> example_payment \<in> set (payments example_db)
   \<and> status example_payment = ''pending''
   \<and> \<not> in_transaction example_db
   \<and> balance_of example_db 7 = Some 50
   \<and> snd (process_successful_payment example_db ''inv-1'') = Inr (Some example_payment)
   \<and> balance_of (settle ''inv-1'' example_db) 7 = Some 150
   \<and> snd (process_successful_payment (settle ''inv-1'' example_db) ''inv-1'') = Inr None
   \<and> balance_of (settle ''inv-1'' (settle ''inv-1'' example_db)) 7 = Some 150
   \<and> in_transaction (settle ''inv-1'' (settle ''inv-1'' example_db))
   \<and> snd (process_successful_payment (settle ''inv-1'' (settle ''inv-1'' example_db)) ''inv-1'') =
       Inl OperationalError
   \<and> snd (process_successful_payment (settle ''inv-1'' (settle ''inv-1'' example_db)) ''inv-2'') =
       Inl OperationalError"
proof -
  let ?d1 = "settle ''inv-1'' example_db"
  have h1: "distinct (map invoice_id (payments example_db))"
    by (simp add: example_db_def)
  have h2: "example_payment \<in> set (payments example_db)"
    by (simp add: example_db_def)
  have h3: "status example_payment = ''pending''"
    by (simp add: example_payment_def)
  have h4: "\<not> in_transaction example_db"
    by (simp add: example_db_def)
  have i: "invoice_id example_payment = ''inv-1''" "user_id example_payment = 7"
    "amount example_payment = 100"
    by (simp_all add: example_payment_def)
  have b0: "balance_of example_db 7 = Some 50"
    by (simp add: balance_of_def get_user_def example_db_def)
  note t = settlement_third_call_raises [OF h1 h2 h3 h4, unfolded i]
  from t [of 7] have c1: "snd (process_successful_payment example_db ''inv-1'') =
      Inr (Some example_payment)"
    by simp
  from t [of 7] have b1: "balance_of ?d1 7 = Some 150"
    by (simp add: b0)
  from t [of 7] have second: "process_successful_payment ?d1 ''inv-1'' =
      (?d1\<lparr>in_transaction := True\<rparr>, Inr None)"
    by simp
  then have d2: "settle ''inv-1'' ?d1 = ?d1\<lparr>in_transaction := True\<rparr>"
    by (simp add: settle_def)
  from second have c2: "snd (process_successful_payment ?d1 ''inv-1'') = Inr None"
    by simp
  have b2: "balance_of (settle ''inv-1'' ?d1) 7 = Some 150"
    using b1 by (simp add: d2 balance_of_def get_user_def)
  have it: "in_transaction (settle ''inv-1'' ?d1)"
    by (simp add: d2)
  from t [where uid = 7 and iid = "''inv-1''"] have c3:
    "snd (process_successful_payment (settle ''inv-1'' ?d1) ''inv-1'') = Inl OperationalError"
    by (simp add: d2)
  from t [where uid = 7 and iid = "''inv-2''"] have c4:
    "snd (process_successful_payment (settle ''inv-1'' ?d1) ''inv-2'') = Inl OperationalError"
    by (simp add: d2)
  show ?thesis by (intro conjI h1 h2 h3 h4 b0 c1 b1 c2 b2 it c3 c4)
qed

text \<open>
  Claim C6 as stated fails: \<^verbatim>\<open>update_payment_status\<close> moves an invoice that is
  already \<^verbatim>\<open>'paid'\<close> to \<^verbatim>\<open>'expired'\<close> and reports a change.
\<close>

theorem update_paid_to_expired_counterexample:
  "map status (payments example_paid_db) = [''paid'']
   \<and> snd (update_payment_status example_paid_db ''inv-1'' ''expired'') = True
   \<and> map status (payments (fst (update_payment_status example_paid_db ''inv-1'' ''expired''))) =
       [''expired'']"
  by (simp add: update_payment_status_def example_paid_db_def example_db_def example_payment_def)

lemma update_status_map_eq:
  "map (\<lambda>p. if invoice_id p = iid \<and> status p \<noteq> st then p\<lparr>status := st\<rparr> else p) ps =
   map (\<lambda>p. if invoice_id p = iid then p\<lparr>status := st\<rparr> else p) ps"
  by (rule map_cong) auto

lemma update_status_filter_empty:
  "filter (\<lambda>p. invoice_id p = iid \<and> status p \<noteq> st)
     (map (\<lambda>p. if invoice_id p = iid then p\<lparr>status := st\<rparr> else p) ps) = []"
  by (induction ps) auto

lemma update_status_map_idem:
  "map (\<lambda>p. if invoice_id p = iid then p\<lparr>status := st\<rparr> else p)
     (map (\<lambda>p. if invoice_id p = iid then p\<lparr>status := st\<rparr> else p) ps) =
   map (\<lambda>p. if invoice_id p = iid then p\<lparr>status := st\<rparr> else p) ps"
  by (induction ps) auto

lemma update_payment_status_payments:
  "payments (fst (update_payment_status d iid st)) =
     map (\<lambda>p. if invoice_id p = iid then p\<lparr>status := st\<rparr> else p) (payments d)"
  by (simp add: update_payment_status_def update_status_map_eq)

lemma update_payment_status_users:
  "users (fst (update_payment_status d iid st)) = users d"
  by (simp add: update_payment_status_def)

lemma step_keeps_other_invoices:
  fixes d :: "('m::plus) db"
  assumes "q \<in> set (payments d)" and "invoice_id q \<noteq> invoice_id p"
  shows "q \<in> set (payments (fst (process_single_payment h now d p)))"
proof -
  have 1: "q \<in> set (payments (fst (update_payment_status d (invoice_id p) st)))" for st
    using assms by (force simp: update_payment_status_def)
  have 2: "q \<in> set (payments (fst (process_successful_payment d (invoice_id p))))"
    using assms by (force simp: process_successful_payment_def split: option.splits)
  show ?thesis
    using assms(1) 1 [of "''expired''"] 2
    by (auto simp: process_single_payment_def split: option.splits prod.splits sum.splits)
qed

lemma fst_check_each_Cons:
  "fst (check_each h en clock d (p # ps)) =
     (if en (payment_method p) = Some True
      then fst (check_each h en clock (fst (process_single_payment h (clock p) d p)) ps)
      else fst (check_each h en clock d ps))"
  by (simp split: prod.splits)

lemma check_each_keeps_other_invoices:
  fixes d :: "('m::plus) db"
  assumes "q \<in> set (payments d)" and "\<forall>p \<in> set ps. invoice_id p \<noteq> invoice_id q"
  shows "q \<in> set (payments (fst (check_each h en clock d ps)))"
  using assms
proof (induction ps arbitrary: d)
  case Nil
  then show ?case by simp
next
  case (Cons p ps)
  from Cons.prems have ne: "invoice_id q \<noteq> invoice_id p"
    and rest: "\<forall>p \<in> set ps. invoice_id p \<noteq> invoice_id q" by auto
  show ?case
  proof (cases "en (payment_method p) = Some True")
    case True
    from Cons.prems(1) ne
    have "q \<in> set (payments (fst (process_single_payment h (clock p) d p)))"
      by (rule step_keeps_other_invoices)
    from Cons.IH [OF this rest] True show ?thesis
      by (simp add: fst_check_each_Cons del: check_each.simps)
  next
    case False
    with Cons.IH [OF Cons.prems(1) rest] show ?thesis
      by (simp add: fst_check_each_Cons del: check_each.simps)
  qed
qed

lemma cycle_keeps_terminal_rows:
  fixes d :: "('m::plus) db"
  assumes "distinct (map invoice_id (payments d))" and "q \<in> set (payments d)"
    and "status q \<noteq> ''pending''"
  shows "q \<in> set (payments (fst (check_pending_payments h en ts clock d)))"
proof -
  have "\<forall>p \<in> set (get_pending_payments ts d). invoice_id p \<noteq> invoice_id q"
  proof
    fix p assume "p \<in> set (get_pending_payments ts d)"
    then have p: "p \<in> set (payments d)" "status p = ''pending''"
      by (auto simp: get_pending_payments_def)
    show "invoice_id p \<noteq> invoice_id q"
    proof
      assume "invoice_id p = invoice_id q"
      with assms(1,2) p(1) have "p = q"
        by (auto simp: distinct_map dest: inj_onD)
      with p(2) assms(3) show False by simp
    qed
  qed
  with assms(2) show ?thesis
    unfolding check_pending_payments_def by (rule check_each_keeps_other_invoices)
qed

text \<open>
  Claim C6, amended. \<^verbatim>\<open>update_payment_status\<close> gives every row of the invoice the
  target status, whatever status the row had (its guard is that the status differs from the
  target, not that it is pending), and changes no other row, column or balance; it returns
  true exactly when a row of the invoice had another status; a second call with the same
  target changes nothing and returns false. The reconciliation cycle applies it, and the
  settlement, only to the rows it has listed as pending: with \<^verbatim>\<open>invoice_id\<close> unique, a
  row that is not pending at the start of a cycle is the same row at its end.
\<close>

theorem update_payment_status_effect:
  fixes d :: "('m::plus) db"
  shows "payments (fst (update_payment_status d iid st)) =
     map (\<lambda>p. if invoice_id p = iid then p\<lparr>status := st\<rparr> else p) (payments d)
   \<and> users (fst (update_payment_status d iid st)) = users d
   \<and> snd (update_payment_status d iid st) =
       (\<exists>p \<in> set (payments d). invoice_id p = iid \<and> status p \<noteq> st)
   \<and> update_payment_status (fst (update_payment_status d iid st)) iid st =
       (fst (update_payment_status d iid st), False)
   \<and> (distinct (map invoice_id (payments d)) \<and> q \<in> set (payments d) \<and>
        status q \<noteq> ''pending'' \<longrightarrow>
        q \<in> set (payments (fst (check_pending_payments h en ts clock d))))"
proof -
  have 3: "snd (update_payment_status d iid st) =
       (\<exists>p \<in> set (payments d). invoice_id p = iid \<and> status p \<noteq> st)"
    by (auto simp: update_payment_status_def filter_empty_conv)
  have 4: "update_payment_status (fst (update_payment_status d iid st)) iid st =
       (fst (update_payment_status d iid st), False)"
    by (simp add: update_payment_status_def update_status_map_eq update_status_filter_empty
          update_status_map_idem)
  have 5: "distinct (map invoice_id (payments d)) \<and> q \<in> set (payments d) \<and>
        status q \<noteq> ''pending'' \<longrightarrow>
        q \<in> set (payments (fst (check_pending_payments h en ts clock d)))"
    using cycle_keeps_terminal_rows [of d q h en ts clock] by blast
  from update_payment_status_payments [of d iid st] update_payment_status_users [of d iid st]
    3 4 5
  show ?thesis by (intro conjI)
qed

theorem update_payment_status_effect_witness:
  "distinct (map invoice_id (payments example_mixed_db))
   \<and> example_settled_payment \<in> set (payments example_mixed_db)
   \<and> status example_settled_payment \<noteq> ''pending''
   \<and> get_pending_payments 0 example_mixed_db = [example_payment]
   \<and> payments (fst (check_pending_payments (handlers_on example_repr paid_network)
                       example_enabled 0 (\<lambda>p. 100) example_mixed_db)) =
       [example_payment\<lparr>status := ''paid''\<rparr>, example_settled_payment]
   \<and> example_settled_payment \<in>
       set (payments (fst (check_pending_payments (handlers_on example_repr paid_network)
                             example_enabled 0 (\<lambda>p. 100) example_mixed_db)))
   \<and> payments (fst (check_pending_payments (handlers_on example_repr paid_network)
                       example_enabled 0 (\<lambda>p. 1000) example_mixed_db)) =
       [example_payment\<lparr>status := ''expired''\<rparr>, example_settled_payment]
   \<and> example_settled_payment \<in>
       set (payments (fst (check_pending_payments (handlers_on example_repr paid_network)
                             example_enabled 0 (\<lambda>p. 1000) example_mixed_db)))
   \<and> snd (update_payment_status example_db ''inv-1'' ''expired'')
   \<and> update_payment_status (fst (update_payment_status example_db ''inv-1'' ''expired''))
        ''inv-1'' ''expired'' =
       (fst (update_payment_status example_db ''inv-1'' ''expired''), False)"
proof -
  let ?h = "handlers_on example_repr paid_network"
  have h1: "distinct (map invoice_id (payments example_mixed_db))"
    by (simp add: example_mixed_db_def example_payment_def example_settled_payment_def)
  have h2: "example_settled_payment \<in> set (payments example_mixed_db)"
    by (simp add: example_mixed_db_def)
  have h3: "status example_settled_payment \<noteq> ''pending''"
    by (simp add: example_settled_payment_def)
  have pend: "get_pending_payments 0 example_mixed_db = [example_payment]"
    by (simp add: get_pending_payments_def example_mixed_db_def example_payment_def
          example_settled_payment_def)
  have i: "payment_method example_payment = ''lolz''" "check_id example_payment = ''inv-1''"
    "expires_at example_payment = Some 900" "invoice_id example_payment = ''inv-1''"
    "status example_payment = ''pending''" "invoice_id example_settled_payment = ''inv-2''"
    by (simp_all add: example_payment_def example_settled_payment_def check_id_def)
  have en: "example_enabled ''lolz'' = Some True"
    by (simp add: example_enabled_def)
  have call: "call_handler ?h ''lolz'' ''inv-1'' =
      Some \<lparr>success = True, result_status = Some ''paid'', error = None\<rparr>"
    by (simp add: call_handler_def handlers_on_def paid_network_def lolz_paid_response_def
          lolz_check_payment_status_def decoded_def)
  have m: "payments example_mixed_db = [example_payment, example_settled_payment]"
    "\<not> in_transaction example_mixed_db"
    by (simp_all add: example_mixed_db_def example_db_def)
  have settled: "payments (fst (check_pending_payments ?h example_enabled 0 (\<lambda>p. 100)
                                  example_mixed_db)) =
       [example_payment\<lparr>status := ''paid''\<rparr>, example_settled_payment]"
    by (simp add: check_pending_payments_def pend en process_single_payment_def i call
          process_successful_payment_def m)
  have expired: "payments (fst (check_pending_payments ?h example_enabled 0 (\<lambda>p. 1000)
                                  example_mixed_db)) =
       [example_payment\<lparr>status := ''expired''\<rparr>, example_settled_payment]"
    by (simp add: check_pending_payments_def pend en process_single_payment_def i
          update_payment_status_def m)
  note t = update_payment_status_effect
  have c: "example_settled_payment \<in>
       set (payments (fst (check_pending_payments ?h example_enabled 0 clock example_mixed_db)))"
    for clock
    by (rule t [THEN conjunct2, THEN conjunct2, THEN conjunct2, THEN conjunct2, rule_format])
       (intro conjI h1 h2 h3)
  have s: "snd (update_payment_status example_db ''inv-1'' ''expired'')"
    by (simp add: t [THEN conjunct2, THEN conjunct2, THEN conjunct1] example_db_def
          example_payment_def)
  have idem: "update_payment_status (fst (update_payment_status example_db ''inv-1'' ''expired''))
        ''inv-1'' ''expired'' =
       (fst (update_payment_status example_db ''inv-1'' ''expired''), False)"
    by (rule t [THEN conjunct2, THEN conjunct2, THEN conjunct2, THEN conjunct1])
  show ?thesis by (intro conjI h1 h2 h3 pend settled c expired s idem)
qed

text \<open>
  Claim C8. When the step of the loop reaches a row whose \<^verbatim>\<open>expires_at\<close> is before
  \<^verbatim>\<open>datetime.now()\<close>, the outcome is the same whatever the adapters would answer, no
  adapter is queried, no balance changes, and the rows of the invoice are set to
  \<^verbatim>\<open>'expired'\<close> (no other row changes).
\<close>

theorem expired_invoice_never_settled:
  fixes d :: "('m::plus) db"
  assumes "expires_at payment = Some e" and "e < now"
  shows "process_single_payment h now d payment = process_single_payment h' now d payment
       \<and> (\<forall>m c. CheckStatus m c \<notin> set (snd (process_single_payment h now d payment)))
       \<and> users (fst (process_single_payment h now d payment)) = users d
       \<and> payments (fst (process_single_payment h now d payment)) =
           map (\<lambda>q. if invoice_id q = invoice_id payment then q\<lparr>status := ''expired''\<rparr> else q)
             (payments d)"
proof -
  have eq: "process_single_payment k now d payment =
     (fst (update_payment_status d (invoice_id payment) ''expired''),
      if snd (update_payment_status d (invoice_id payment) ''expired'')
      then [NotifyExpired (user_id payment) (invoice_id payment)] else [])" for k
    using assms by (simp add: process_single_payment_def split: prod.splits)
  show ?thesis
    by (simp add: eq [of h] eq [of h'] update_payment_status_payments update_payment_status_users)
qed

theorem expired_invoice_never_settled_witness:
  "expires_at example_payment = Some 900 \<and> (900::int) < 1000
   \<and> lolz (handlers_on example_repr paid_network) ''inv-1'' =
       \<lparr>success = True, result_status = Some ''paid'', error = None\<rparr>
   \<and> process_single_payment (handlers_on example_repr paid_network) 1000 example_db
        example_payment =
       (example_db\<lparr>payments := [example_payment\<lparr>status := ''expired''\<rparr>]\<rparr>,
        [NotifyExpired 7 ''inv-1''])
   \<and> balance_of
        (fst (process_single_payment (handlers_on example_repr paid_network) 1000 example_db
                example_payment)) 7 =
       Some 50"
proof -
  have h1: "expires_at example_payment = Some 900"
    by (simp add: example_payment_def)
  have h2: "(900::int) < 1000" by simp
  have paid: "lolz (handlers_on example_repr paid_network) ''inv-1'' =
       \<lparr>success = True, result_status = Some ''paid'', error = None\<rparr>"
    by (simp add: handlers_on_def paid_network_def lolz_paid_response_def
          lolz_check_payment_status_def decoded_def)
  note t = expired_invoice_never_settled [OF h1 h2,
      where h = "handlers_on example_repr paid_network" and d = example_db
        and h' = "handlers_on example_repr failing_network"]
  have r: "process_single_payment (handlers_on example_repr failing_network) 1000 example_db
        example_payment =
       (example_db\<lparr>payments := [example_payment\<lparr>status := ''expired''\<rparr>]\<rparr>,
        [NotifyExpired 7 ''inv-1''])"
    by (simp add: process_single_payment_def update_payment_status_def example_db_def
          example_payment_def)
  from t r have p: "process_single_payment (handlers_on example_repr paid_network) 1000
        example_db example_payment =
       (example_db\<lparr>payments := [example_payment\<lparr>status := ''expired''\<rparr>]\<rparr>,
        [NotifyExpired 7 ''inv-1''])"
    by simp
  have b: "balance_of
        (fst (process_single_payment (handlers_on example_repr paid_network) 1000 example_db
                example_payment)) 7 = Some 50"
    unfolding p by (simp add: balance_of_def get_user_def example_db_def)
  show ?thesis by (intro conjI h1 h2 paid p b)
qed

text \<open>
  Claim C9. When the step queries an adapter and the result carries no success, the ledger
  after the step is the ledger before it: the step only logs the error.
\<close>

theorem failed_status_check_changes_nothing:
  fixes d :: "('m::plus) db"
  assumes "CheckStatus m c \<in> set (snd (process_single_payment h now d payment))"
    and "call_handler h (payment_method payment) (check_id payment) = Some r"
    and "\<not> success r"
  shows "process_single_payment h now d payment =
           (d, [CheckStatus (payment_method payment) (check_id payment),
                LogError (invoice_id payment)])"
  using assms
  by (auto simp: process_single_payment_def split: option.splits if_splits prod.splits sum.splits)

theorem failed_status_check_changes_nothing_witness:
  "CheckStatus ''lolz'' ''inv-1'' \<in>
     set (snd (process_single_payment (handlers_on example_repr failing_network) 100 example_db
                 example_payment))
   \<and> call_handler (handlers_on example_repr failing_network) ''lolz'' ''inv-1'' =
       Some \<lparr>success = False, result_status = None, error = Some ConnectionError\<rparr>
   \<and> fst (process_single_payment (handlers_on example_repr failing_network) 100 example_db
            example_payment) = example_db"
proof -
  let ?h = "handlers_on example_repr failing_network"
  let ?r = "\<lparr>success = False, result_status = None, error = Some ConnectionError\<rparr>"
  have i: "payment_method example_payment = ''lolz''" "check_id example_payment = ''inv-1''"
    "expires_at example_payment = Some 900" "invoice_id example_payment = ''inv-1''"
    by (simp_all add: example_payment_def check_id_def)
  have c: "call_handler ?h ''lolz'' ''inv-1'' = Some ?r"
    by (simp add: call_handler_def handlers_on_def failing_network_def
          lolz_check_payment_status_def failure_def)
  have h2: "call_handler ?h (payment_method example_payment) (check_id example_payment) = Some ?r"
    by (simp only: i c)
  have h1: "CheckStatus ''lolz'' ''inv-1'' \<in>
     set (snd (process_single_payment ?h 100 example_db example_payment))"
    by (simp add: process_single_payment_def c i)
  have h3: "\<not> success ?r"
    by simp
  from failed_status_check_changes_nothing [OF h1 h2 h3]
  have "fst (process_single_payment ?h 100 example_db example_payment) = example_db"
    by simp
  with h1 c show ?thesis by (intro conjI)
qed

section \<open>The signed string\<close>

lemma join_Cons: "join sep (x # xs) = (if xs = [] then x else x @ sep @ join sep xs)"
  by (cases xs) simp_all

lemma join_update_inj:
  "i < length xs \<Longrightarrow> join sep (xs[i := y]) = join sep xs \<Longrightarrow> y = xs ! i"
proof (induction xs arbitrary: i)
  case Nil
  then show ?case by simp
next
  case (Cons x xs)
  show ?case
  proof (cases i)
    case 0
    with Cons.prems show ?thesis by (simp add: join_Cons split: if_splits)
  next
    case (Suc j)
    with Cons.prems have j: "j < length xs" by simp
    then have ne: "xs \<noteq> []" "xs[j := y] \<noteq> []" by auto
    from Cons.prems Suc ne have "join sep (xs[j := y]) = join sep xs"
      by (simp add: join_Cons)
    with Cons.IH [OF j] Suc show ?thesis by simp
  qed
qed

lemma sort_map_fst:
  assumes "distinct (map fst e)"
  shows "sort (map fst e) = map fst (sort_key fst e)"
proof (rule sorted_distinct_set_unique)
  show "sorted (sort (map fst e))" by simp
  show "distinct (sort (map fst e))" using assms by simp
  show "sorted (map fst (sort_key fst e))" by (rule sorted_sort_key)
  show "distinct (map fst (sort_key fst e))"
    using assms by (simp add: distinct_map)
  show "set (sort (map fst e)) = set (map fst (sort_key fst e))" by simp
qed

lemma sorted_values:
  assumes "distinct (map fst e)"
  shows "map (\<lambda>key. f (the (map_of e key))) (sort (map fst e)) =
         map (\<lambda>kv. f (snd kv)) (sort_key fst e)"
proof -
  have "map (\<lambda>key. f (the (map_of e key))) (sort (map fst e)) =
        map (\<lambda>kv. f (the (map_of e (fst kv)))) (sort_key fst e)"
    by (simp add: sort_map_fst [OF assms] comp_def)
  also have "\<dots> = map (\<lambda>kv. f (snd kv)) (sort_key fst e)"
  proof (rule map_cong [OF refl])
    fix kv assume "kv \<in> set (sort_key fst e)"
    then have "(fst kv, snd kv) \<in> set e" by simp
    with assms have "map_of e (fst kv) = Some (snd kv)" by (rule map_of_is_SomeI)
    then show "f (the (map_of e (fst kv))) = f (snd kv)" by simp
  qed
  finally show ?thesis .
qed

lemma signature_parts_sorted_values:
  assumes "distinct (map fst e)"
  shows "signature_parts L m amt iid pw (Some e) =
           [m, str_float L amt, iid, pw] @ map (\<lambda>kv. str_value L (snd kv)) (sort_key fst e)"
  using sorted_values [OF assms, of "str_value L"] by (cases e) (simp_all add: signature_parts_def)

text \<open>
  Claim C5. Two dictionaries with the same items, in whatever iteration order, give the same
  signature.
\<close>

theorem signature_order_independent:
  assumes "distinct (map fst e1)" and "distinct (map fst e2)" and "set e1 = set e2"
  shows "calculate_signature L m amt iid pw (Some e1) =
         calculate_signature L m amt iid pw (Some e2)"
proof -
  have keys: "set (map fst e1) = set (map fst e2)"
    using assms(3) by simp
  have "sort (map fst e1) = sort (map fst e2)"
    by (rule sorted_distinct_set_unique) (simp_all add: assms(1,2) keys del: set_map)
  moreover have "map_of e1 = map_of e2"
    using assms by (simp add: map_of_inject_set)
  moreover have "e1 = [] \<longleftrightarrow> e2 = []"
    using assms(3) by (metis set_empty)
  ultimately show ?thesis
    by (simp add: calculate_signature_def signature_string_def signature_parts_def)
qed

theorem signature_order_independent_witness:
  "distinct (map fst [(''b'', ''1''), (''a'', ''2'')])
   \<and> distinct (map fst [(''a'', ''2''), (''b'', ''1'')])
   \<and> set [(''b'', ''1''), (''a'', ''2'')] = set [(''a'', ''2''), (''b'', ''1'')]
   \<and> calculate_signature example_lib ''shop'' ''100.0'' ''42'' ''secret''
        (Some [(''b'', ''1''), (''a'', ''2'')]) = ''shop:100.0:42:secret:2:1''
   \<and> calculate_signature example_lib ''shop'' ''100.0'' ''42'' ''secret''
        (Some [(''a'', ''2''), (''b'', ''1'')]) = ''shop:100.0:42:secret:2:1''"
proof -
  have h1: "distinct (map fst [(''b'', ''1''), (''a'', ''2'')])" by simp
  have h2: "distinct (map fst [(''a'', ''2''), (''b'', ''1'')])" by simp
  have h3: "set [(''b'', ''1''), (''a'', ''2'')] = set [(''a'', ''2''), (''b'', ''1'')]" by auto
  have v: "calculate_signature example_lib ''shop'' ''100.0'' ''42'' ''secret''
        (Some [(''a'', ''2''), (''b'', ''1'')]) = ''shop:100.0:42:secret:2:1''"
    by (simp add: calculate_signature_def signature_string_def signature_parts_def
          example_lib_def)
  from signature_order_independent [OF h1 h2 h3, of example_lib "''shop''" "''100.0''" "''42''"
      "''secret''"] v h1 h2 h3
  show ?thesis by simp
qed

text \<open>
  Claim C10. The signature depends on \<^verbatim>\<open>extra_params\<close> only through the values, as
  \<^verbatim>\<open>str\<close> renders them, taken in ascending key order: two dictionaries whose value
  sequences in key order coincide give the same signature, and the validator accepts the
  same signatures for both.
\<close>

theorem signature_ignores_key_names:
  assumes "distinct (map fst e1)" and "distinct (map fst e2)"
    and "map (\<lambda>kv. str_value L (snd kv)) (sort_key fst e1) =
         map (\<lambda>kv. str_value L (snd kv)) (sort_key fst e2)"
  shows "calculate_signature L m amt iid pw (Some e1) =
           calculate_signature L m amt iid pw (Some e2)
       \<and> verify_callback_signature L m amt iid sg pw (Some e1) =
           verify_callback_signature L m amt iid sg pw (Some e2)"
  by (simp add: verify_callback_signature_def calculate_signature_def signature_string_def
        signature_parts_sorted_values assms)

theorem signature_ignores_key_names_witness:
  "distinct (map fst [(''user'', ''7''), (''order'', ''A'')])
   \<and> distinct (map fst [(''x'', ''A''), (''y'', ''7'')])
   \<and> map (\<lambda>kv. str_value example_lib (snd kv))
        (sort_key fst [(''user'', ''7''), (''order'', ''A'')]) = [''A'', ''7'']
   \<and> map (\<lambda>kv. str_value example_lib (snd kv))
        (sort_key fst [(''x'', ''A''), (''y'', ''7'')]) = [''A'', ''7'']
   \<and> calculate_signature example_lib ''shop'' ''100.0'' ''42'' ''secret''
        (Some [(''user'', ''7''), (''order'', ''A'')]) =
      calculate_signature example_lib ''shop'' ''100.0'' ''42'' ''secret''
        (Some [(''x'', ''A''), (''y'', ''7'')])
   \<and> verify_callback_signature example_lib ''shop'' ''100.0'' ''42''
        (calculate_signature example_lib ''shop'' ''100.0'' ''42'' ''secret''
           (Some [(''user'', ''7''), (''order'', ''A'')]))
        ''secret'' (Some [(''x'', ''A''), (''y'', ''7'')])"
proof -
  let ?e1 = "[(''user'', ''7''), (''order'', ''A'')]"
  let ?e2 = "[(''x'', ''A''), (''y'', ''7'')]"
  let ?sg = "calculate_signature example_lib ''shop'' ''100.0'' ''42'' ''secret'' (Some ?e1)"
  have h1: "distinct (map fst ?e1)" by simp
  have h2: "distinct (map fst ?e2)" by simp
  have s1: "map (\<lambda>kv. str_value example_lib (snd kv)) (sort_key fst ?e1) = [''A'', ''7'']"
    by (simp add: example_lib_def)
  have s2: "map (\<lambda>kv. str_value example_lib (snd kv)) (sort_key fst ?e2) = [''A'', ''7'']"
    by (simp add: example_lib_def)
  have h3: "map (\<lambda>kv. str_value example_lib (snd kv)) (sort_key fst ?e1) =
      map (\<lambda>kv. str_value example_lib (snd kv)) (sort_key fst ?e2)"
    by (simp only: s1 s2)
  have own: "verify_callback_signature example_lib ''shop'' ''100.0'' ''42'' ?sg ''secret'' (Some ?e1)"
    by (simp add: verify_callback_signature_def)
  note t = signature_ignores_key_names [OF h1 h2 h3, of "''shop''" "''100.0''" "''42''"
      "''secret''" ?sg]
  from t have c: "?sg =
      calculate_signature example_lib ''shop'' ''100.0'' ''42'' ''secret'' (Some ?e2)"
    by (rule conjunct1)
  from t own have acc:
    "verify_callback_signature example_lib ''shop'' ''100.0'' ''42'' ?sg ''secret'' (Some ?e2)"
    by blast
  show ?thesis by (intro conjI h1 h2 s1 s2 c acc)
qed

section \<open>Verification of a signature\<close>






lemma signature_string_password:
  assumes "signature_string L m amt iid pw' ex = signature_string L m amt iid pw ex"
  shows "pw' = pw"
proof -
  let ?ps = "signature_parts L m amt iid pw ex"
  have "signature_parts L m amt iid pw' ex = ?ps[3 := pw']"
    by (simp add: signature_parts_def numeral_3_eq_3)
  with assms have "join '':'' (?ps[3 := pw']) = join '':'' ?ps"
    by (simp add: signature_string_def)
  then have "pw' = ?ps ! 3"
    by (rule join_update_inj [rotated]) (simp add: signature_parts_def)
  then show ?thesis by (simp add: signature_parts_def numeral_3_eq_3)
qed

























text \<open>
  Claim C4 as stated fails: the callbacks verify with \<^verbatim>\<open>get_password1\<close> and
  \<^verbatim>\<open>get_password2\<close>, which in sandbox mode are the test secrets. In the sandbox
  configuration above \<^verbatim>\<open>password1\<close> and \<^verbatim>\<open>password2\<close> are distinct, and a
  signature made with \<^verbatim>\<open>password2\<close> passes the success callback, one made with
  \<^verbatim>\<open>password1\<close> the failure and the status callback, whatever the digest function,
  the amount and the extra parameters.
\<close>

theorem sandbox_secrets_cross_paths_counterexample:
  "password1 sandbox_config \<noteq> password2 sandbox_config
   \<and> (\<forall>L amt ex. process_success_callback L sandbox_config ''shop'' amt ''42''
          (calculate_signature L ''shop'' amt ''42'' (password2 sandbox_config) ex) ex =
        (True, ''OK42''))
   \<and> (\<forall>L amt ex. process_fail_callback L sandbox_config ''shop'' amt ''42''
          (calculate_signature L ''shop'' amt ''42'' (password1 sandbox_config) ex) ex =
        (True, ''FAIL''))
   \<and> (\<forall>L amt ex. process_status_callback L sandbox_config ''shop'' amt ''42''
          (calculate_signature L ''shop'' amt ''42'' (password1 sandbox_config) ex) ex =
        (True, ''OK42''))"
  by (simp add: sandbox_config_def process_success_callback_def process_fail_callback_def
        process_status_callback_def verify_payment_def verify_payment_secondary_def
        get_password1_def get_password2_def verify_callback_signature_def)

lemma callback_verdicts:
  "process_success_callback L c m amt iid sg ex =
     (if verify_callback_signature L m amt iid sg (get_password1 c) ex
      then (True, ''OK'' @ iid) else (False, ''Invalid signature''))"
  "process_fail_callback L c m amt iid sg ex =
     (if verify_callback_signature L m amt iid sg (get_password2 c) ex
      then (True, ''FAIL'') else (False, ''Invalid signature''))"
  "process_status_callback L c m amt iid sg ex =
     (if verify_callback_signature L m amt iid sg (get_password2 c) ex
      then (True, ''OK'' @ iid) else (False, ''Invalid signature''))"
  by (simp_all add: process_success_callback_def process_fail_callback_def
        process_status_callback_def verify_payment_def verify_payment_secondary_def)

lemma verify_iff_digests:
  "verify_callback_signature L m' amt' iid' (calculate_signature L m amt iid pw ex) pw' ex' =
     (lower (md5_hexdigest L (signature_string L m' amt' iid' pw' ex')) =
      lower (md5_hexdigest L (signature_string L m amt iid pw ex)))"
  by (simp add: verify_callback_signature_def calculate_signature_def)

text \<open>
  Claim C4, amended. The success callback verifies with \<^verbatim>\<open>get_password1\<close>, the
  failure and the status callback with \<^verbatim>\<open>get_password2\<close>: outside the sandbox these
  are \<^verbatim>\<open>password1\<close> and \<^verbatim>\<open>password2\<close>, in the sandbox a non-empty test secret
  takes their place. When the two secrets in effect differ, the two signed strings differ.
  The success callback refuses a signature made with the secondary secret in effect, and
  the failure and the status callback refuse one made with the primary secret in effect,
  exactly when the digests of the two signed strings, compared without case, differ: so
  they do whenever the secrets in effect differ and the digest does not collide on the two
  signed strings.
\<close>

theorem callbacks_verified_with_their_secret:
  "process_success_callback L c m amt iid sg ex =
     (if verify_callback_signature L m amt iid sg (get_password1 c) ex
      then (True, ''OK'' @ iid) else (False, ''Invalid signature''))
   \<and> process_fail_callback L c m amt iid sg ex =
     (if verify_callback_signature L m amt iid sg (get_password2 c) ex
      then (True, ''FAIL'') else (False, ''Invalid signature''))
   \<and> process_status_callback L c m amt iid sg ex =
     (if verify_callback_signature L m amt iid sg (get_password2 c) ex
      then (True, ''OK'' @ iid) else (False, ''Invalid signature''))
   \<and> (\<not> use_sandbox c \<longrightarrow> get_password1 c = password1 c \<and> get_password2 c = password2 c)
   \<and> (use_sandbox c \<and> test_password1 c = Some t1 \<and> t1 \<noteq> [] \<longrightarrow> get_password1 c = t1)
   \<and> (use_sandbox c \<and> test_password2 c = Some t2 \<and> t2 \<noteq> [] \<longrightarrow> get_password2 c = t2)
   \<and> (get_password1 c \<noteq> get_password2 c \<longrightarrow>
        signature_string L m amt iid (get_password1 c) ex \<noteq>
        signature_string L m amt iid (get_password2 c) ex)
   \<and> (process_success_callback L c m amt iid
          (calculate_signature L m amt iid (get_password2 c) ex) ex =
        (False, ''Invalid signature'')) =
       (lower (md5_hexdigest L (signature_string L m amt iid (get_password1 c) ex)) \<noteq>
        lower (md5_hexdigest L (signature_string L m amt iid (get_password2 c) ex)))
   \<and> (process_fail_callback L c m amt iid
          (calculate_signature L m amt iid (get_password1 c) ex) ex =
        (False, ''Invalid signature'')) =
       (lower (md5_hexdigest L (signature_string L m amt iid (get_password1 c) ex)) \<noteq>
        lower (md5_hexdigest L (signature_string L m amt iid (get_password2 c) ex)))
   \<and> (process_status_callback L c m amt iid
          (calculate_signature L m amt iid (get_password1 c) ex) ex =
        (False, ''Invalid signature'')) =
       (lower (md5_hexdigest L (signature_string L m amt iid (get_password1 c) ex)) \<noteq>
        lower (md5_hexdigest L (signature_string L m amt iid (get_password2 c) ex)))
   \<and> (get_password1 c \<noteq> get_password2 c \<and>
        collision_free_on L (signature_string L m amt iid (get_password1 c) ex)
          (signature_string L m amt iid (get_password2 c) ex) \<longrightarrow>
        process_success_callback L c m amt iid
            (calculate_signature L m amt iid (get_password2 c) ex) ex =
          (False, ''Invalid signature'')
        \<and> process_fail_callback L c m amt iid
            (calculate_signature L m amt iid (get_password1 c) ex) ex =
          (False, ''Invalid signature'')
        \<and> process_status_callback L c m amt iid
            (calculate_signature L m amt iid (get_password1 c) ex) ex =
          (False, ''Invalid signature''))"
proof -
  note defs = callback_verdicts [of L c m amt iid _ ex]
  have ne: "signature_string L m amt iid (get_password1 c) ex \<noteq>
        signature_string L m amt iid (get_password2 c) ex"
    if a: "get_password1 c \<noteq> get_password2 c"
    using a signature_string_password [of L m amt iid "get_password1 c" ex "get_password2 c"]
    by (rule contrapos_nn)
  have x1: "(process_success_callback L c m amt iid
          (calculate_signature L m amt iid (get_password2 c) ex) ex =
        (False, ''Invalid signature'')) =
       (lower (md5_hexdigest L (signature_string L m amt iid (get_password1 c) ex)) \<noteq>
        lower (md5_hexdigest L (signature_string L m amt iid (get_password2 c) ex)))"
    by (simp add: defs verify_iff_digests)
  have x2: "(process_fail_callback L c m amt iid
          (calculate_signature L m amt iid (get_password1 c) ex) ex =
        (False, ''Invalid signature'')) =
       (lower (md5_hexdigest L (signature_string L m amt iid (get_password1 c) ex)) \<noteq>
        lower (md5_hexdigest L (signature_string L m amt iid (get_password2 c) ex)))"
    by (auto simp: defs verify_iff_digests)
  have x3: "(process_status_callback L c m amt iid
          (calculate_signature L m amt iid (get_password1 c) ex) ex =
        (False, ''Invalid signature'')) =
       (lower (md5_hexdigest L (signature_string L m amt iid (get_password1 c) ex)) \<noteq>
        lower (md5_hexdigest L (signature_string L m amt iid (get_password2 c) ex)))"
    by (auto simp: defs verify_iff_digests)
  have sep: "lower (md5_hexdigest L (signature_string L m amt iid (get_password1 c) ex)) \<noteq>
        lower (md5_hexdigest L (signature_string L m amt iid (get_password2 c) ex))"
    if a: "get_password1 c \<noteq> get_password2 c \<and>
        collision_free_on L (signature_string L m amt iid (get_password1 c) ex)
          (signature_string L m amt iid (get_password2 c) ex)"
    using ne [OF a [THEN conjunct1]] a [THEN conjunct2]
    by (simp add: collision_free_on_def)
  show ?thesis
  proof (intro conjI impI)
    assume "get_password1 c \<noteq> get_password2 c"
    then show "signature_string L m amt iid (get_password1 c) ex \<noteq>
        signature_string L m amt iid (get_password2 c) ex"
      by (rule ne)
  next
    assume a: "get_password1 c \<noteq> get_password2 c \<and>
        collision_free_on L (signature_string L m amt iid (get_password1 c) ex)
          (signature_string L m amt iid (get_password2 c) ex)"
    show "process_success_callback L c m amt iid
            (calculate_signature L m amt iid (get_password2 c) ex) ex =
          (False, ''Invalid signature'')"
      by (rule x1 [THEN iffD2, OF sep [OF a]])
    show "process_fail_callback L c m amt iid
            (calculate_signature L m amt iid (get_password1 c) ex) ex =
          (False, ''Invalid signature'')"
      by (rule x2 [THEN iffD2, OF sep [OF a]])
    show "process_status_callback L c m amt iid
            (calculate_signature L m amt iid (get_password1 c) ex) ex =
          (False, ''Invalid signature'')"
      by (rule x3 [THEN iffD2, OF sep [OF a]])
  next
    show "(process_success_callback L c m amt iid
          (calculate_signature L m amt iid (get_password2 c) ex) ex =
        (False, ''Invalid signature'')) =
       (lower (md5_hexdigest L (signature_string L m amt iid (get_password1 c) ex)) \<noteq>
        lower (md5_hexdigest L (signature_string L m amt iid (get_password2 c) ex)))"
      by (rule x1)
    show "(process_fail_callback L c m amt iid
          (calculate_signature L m amt iid (get_password1 c) ex) ex =
        (False, ''Invalid signature'')) =
       (lower (md5_hexdigest L (signature_string L m amt iid (get_password1 c) ex)) \<noteq>
        lower (md5_hexdigest L (signature_string L m amt iid (get_password2 c) ex)))"
      by (rule x2)
    show "(process_status_callback L c m amt iid
          (calculate_signature L m amt iid (get_password1 c) ex) ex =
        (False, ''Invalid signature'')) =
       (lower (md5_hexdigest L (signature_string L m amt iid (get_password1 c) ex)) \<noteq>
        lower (md5_hexdigest L (signature_string L m amt iid (get_password2 c) ex)))"
      by (rule x3)
  qed (simp_all add: defs get_password1_def get_password2_def split: option.splits)
qed

theorem callbacks_verified_with_their_secret_witness:
  "\<not> use_sandbox example_config
   \<and> get_password1 example_config = ''first'' \<and> get_password2 example_config = ''second''
   \<and> process_success_callback example_lib example_config ''shop'' ''100.0'' ''42''
       (calculate_signature example_lib ''shop'' ''100.0'' ''42'' ''first'' None) None =
       (True, ''OK42'')
   \<and> process_success_callback example_lib example_config ''shop'' ''100.0'' ''42''
       (calculate_signature example_lib ''shop'' ''100.0'' ''42'' ''second'' None) None =
       (False, ''Invalid signature'')
   \<and> process_fail_callback example_lib example_config ''shop'' ''100.0'' ''42''
       (calculate_signature example_lib ''shop'' ''100.0'' ''42'' ''first'' None) None =
       (False, ''Invalid signature'')
   \<and> process_status_callback example_lib example_config ''shop'' ''100.0'' ''42''
       (calculate_signature example_lib ''shop'' ''100.0'' ''42'' ''first'' None) None =
       (False, ''Invalid signature'')
   \<and> process_status_callback example_lib example_config ''shop'' ''100.0'' ''42''
       (calculate_signature example_lib ''shop'' ''100.0'' ''42'' ''second'' None) None =
       (True, ''OK42'')
   \<and> signature_string example_lib ''shop'' ''100.0'' ''42'' (get_password1 example_config) None \<noteq>
     signature_string example_lib ''shop'' ''100.0'' ''42'' (get_password2 example_config) None
   \<and> use_sandbox sandbox_config
   \<and> get_password1 sandbox_config = ''second'' \<and> get_password2 sandbox_config = ''first''"
proof -
  have sb: "\<not> use_sandbox example_config" by (simp add: example_config_def)
  have p: "password1 example_config = ''first''" "password2 example_config = ''second''"
    by (simp_all add: example_config_def)
  have s: "signature_string example_lib m amt iid pw None =
             m @ '':'' @ amt @ '':'' @ iid @ '':'' @ pw" for m amt iid pw
    by (simp add: signature_string_def signature_parts_def example_lib_def)
  note t = callbacks_verified_with_their_secret [where L = example_lib and c = example_config
      and m = "''shop''" and amt = "''100.0''" and iid = "''42''" and ex = None]
  note ts = callbacks_verified_with_their_secret [where c = sandbox_config
      and ?t1.0 = "''second''" and ?t2.0 = "''first''"]
  from t sb p have g: "get_password1 example_config = ''first''"
    "get_password2 example_config = ''second''"
    by simp_all
  have md: "md5_hexdigest example_lib x = x" for x
    by (simp add: example_lib_def)
  have cf: "collision_free_on example_lib
      (signature_string example_lib ''shop'' ''100.0'' ''42'' ''first'' None)
      (signature_string example_lib ''shop'' ''100.0'' ''42'' ''second'' None)"
    by (simp add: s collision_free_on_def md lower_def lower_char_def)
  have own: "verify_callback_signature example_lib ''shop'' ''100.0'' ''42''
      (calculate_signature example_lib ''shop'' ''100.0'' ''42'' pw None) pw None" for pw
    by (simp add: verify_callback_signature_def)
  let ?sg1 = "calculate_signature example_lib ''shop'' ''100.0'' ''42'' ''first'' None"
  let ?sg2 = "calculate_signature example_lib ''shop'' ''100.0'' ''42'' ''second'' None"
  have ne: "get_password1 example_config \<noteq> get_password2 example_config"
    by (simp add: g)
  note cross = t [THEN conjunct2, THEN conjunct2, THEN conjunct2, THEN conjunct2, THEN conjunct2,
      THEN conjunct2, THEN conjunct2, THEN conjunct2, THEN conjunct2, THEN conjunct2,
      rule_format, OF conjI, OF ne, unfolded g, OF cf]
  have strs: "signature_string example_lib ''shop'' ''100.0'' ''42'' (get_password1 example_config)
        None \<noteq>
      signature_string example_lib ''shop'' ''100.0'' ''42'' (get_password2 example_config) None"
    using ne
    by (rule t [THEN conjunct2, THEN conjunct2, THEN conjunct2, THEN conjunct2, THEN conjunct2,
          THEN conjunct2, THEN conjunct1, rule_format])
  have a1: "process_success_callback example_lib example_config ''shop'' ''100.0'' ''42'' ?sg1 None =
       (True, ''OK42'')"
    using t [of ?sg1, THEN conjunct1] own [of "''first''"] by (simp add: g)
  have a2: "process_status_callback example_lib example_config ''shop'' ''100.0'' ''42'' ?sg2 None =
       (True, ''OK42'')"
    using t [of ?sg2, THEN conjunct2, THEN conjunct2, THEN conjunct1] own [of "''second''"]
    by (simp add: g)
  have us: "use_sandbox sandbox_config"
    by (simp add: sandbox_config_def)
  have g1: "get_password1 sandbox_config = ''second''"
    by (rule ts [THEN conjunct2, THEN conjunct2, THEN conjunct2, THEN conjunct2, THEN conjunct1,
          rule_format]) (simp add: sandbox_config_def)
  have g2: "get_password2 sandbox_config = ''first''"
    by (rule ts [THEN conjunct2, THEN conjunct2, THEN conjunct2, THEN conjunct2, THEN conjunct2,
          THEN conjunct1, rule_format]) (simp add: sandbox_config_def)
  show ?thesis
    by (intro conjI sb g a1 a2 cross [THEN conjunct1] cross [THEN conjunct2, THEN conjunct1]
          cross [THEN conjunct2, THEN conjunct2] strs us g1 g2)
qed

section \<open>Decoding of the provider status\<close>




lemma decoded_simps [simp]:
  "success (decoded w st) = True"
  "result_status (decoded w st) = Some (if st = JStr w then ''paid'' else ''pending'')"
  "error (decoded w st) = None"
  by (simp_all add: decoded_def)

lemma failure_simps [simp]:
  "success (failure e) = False"
  "result_status (failure e) = None"
  "error (failure e) = Some e"
  by (simp_all add: failure_def)




































end
